theory Spec2Isabelle
  imports Complex_Main
begin

section \<open>Numeric model\<close>

text \<open>
  The source file \<^verbatim>\<open>pipedream_solver/ngeometry.py\<close> holds scalar functions over
  \<^verbatim>\<open>float64\<close>, compiled with \<^verbatim>\<open>@njit\<close> under its default error model. They are
  embedded over the real numbers: rounding and overflow are outside the model. What is
  inside the model is every place where the source can leave the real numbers:
  \<^item> a division whose divisor is zero raises \<^verbatim>\<open>ZeroDivisionError\<close>;
  \<^item> \<^verbatim>\<open>np.sqrt\<close>, \<^verbatim>\<open>np.log\<close>, \<^verbatim>\<open>np.arccos\<close> and \<^verbatim>\<open>np.arcsin\<close> outside their real
    domain give NaN or an infinity, which every function of the file then carries into
    the value it returns.
  A function that divides by a variable or calls one of these has the result type
  \<open>fault + real\<close>; a function made of sums, products, comparisons and division by a
  literal only is a plain real function.

  Two results of the source are known to differ in \<^verbatim>\<open>float64\<close> from the value of
  their formula over the reals, and the theorems of the claims below say nothing of either:
  \<^item> the elliptical area at a mean depth of zero or below, where \<^verbatim>\<open>np.cos\<close> of the
    rounded \<open>- pi / 2\<close> is not zero and the returned area is a small negative number;
  \<^item> the parabolic perimeter at a positive mean depth so small that \<^verbatim>\<open>1 / x\<close>
    overflows, where the returned perimeter is NaN.
\<close>

datatype fault = ZeroDivisionError | NotFinite

definition eps :: real where
  \<comment> \<open>\<^verbatim>\<open>np.finfo(float).eps\<close>, the spacing of float64 at one\<close>
  "eps = 1 / 2 ^ 52"

definition fdiv :: "real \<Rightarrow> real \<Rightarrow> fault + real" where
  "fdiv x y = (if y = 0 then Inl ZeroDivisionError else Inr (x / y))"

definition np_sqrt :: "real \<Rightarrow> fault + real" where
  "np_sqrt x = (if 0 \<le> x then Inr (sqrt x) else Inl NotFinite)"

definition np_log :: "real \<Rightarrow> fault + real" where
  "np_log x = (if 0 < x then Inr (ln x) else Inl NotFinite)"

definition np_arccos :: "real \<Rightarrow> fault + real" where
  "np_arccos x = (if - 1 \<le> x \<and> x \<le> 1 then Inr (arccos x) else Inl NotFinite)"

definition np_arcsin :: "real \<Rightarrow> fault + real" where
  "np_arcsin x = (if - 1 \<le> x \<and> x \<le> 1 then Inr (arcsin x) else Inl NotFinite)"

section \<open>Circular\<close>

definition Circular_A_ik :: "real \<Rightarrow> real \<Rightarrow> real \<Rightarrow> fault + real" where
  "Circular_A_ik h_Ik h_Ip1k g1 =
    (let d = g1;
         y = (h_Ik + h_Ip1k) / 2;
         y = (if y < 0 then 0 else y);
         y = (if y > d then d else y);
         r = d / 2
     in case fdiv y r of Inl e \<Rightarrow> Inl e | Inr phi \<Rightarrow>
       (let phi = (if phi < 0 then 0 else phi);
            phi = (if phi > 2 then 2 else phi)
        in case np_arccos (1 - phi) of Inl e \<Rightarrow> Inl e | Inr theta \<Rightarrow>
          Inr (r ^ 2 * (theta - cos theta * sin theta))))"

definition Circular_Pe_ik :: "real \<Rightarrow> real \<Rightarrow> real \<Rightarrow> fault + real" where
  "Circular_Pe_ik h_Ik h_Ip1k g1 =
    (let d = g1;
         y = (h_Ik + h_Ip1k) / 2;
         y = (if y < 0 then 0 else y);
         y = (if y > d then d else y);
         r = d / 2
     in case fdiv y r of Inl e \<Rightarrow> Inl e | Inr phi \<Rightarrow>
       (let phi = (if phi < 0 then 0 else phi);
            phi = (if phi > 2 then 2 else phi)
        in case np_arccos (1 - phi) of Inl e \<Rightarrow> Inl e | Inr theta \<Rightarrow>
          Inr (2 * r * theta)))"

definition Circular_R_ik :: "real \<Rightarrow> real \<Rightarrow> real" where
  "Circular_R_ik A_ik Pe_ik =
    (let cond = Pe_ik > 0 in if cond then A_ik / Pe_ik else 0)"

definition Circular_B_ik :: "real \<Rightarrow> real \<Rightarrow> real \<Rightarrow> real \<Rightarrow> fault + real" where
  "Circular_B_ik h_Ik h_Ip1k g1 g2 =
    (let d = g1;
         pslot = g2;
         y = (h_Ik + h_Ip1k) / 2;
         y = (if y < 0 then 0 else y);
         r = d / 2
     in case fdiv y r of Inl e \<Rightarrow> Inl e | Inr phi \<Rightarrow>
       (let phi = (if phi < 0 then 0 else phi);
            phi = (if phi > 2 then 2 else phi)
        in case np_arccos (1 - phi) of Inl e \<Rightarrow> Inl e | Inr theta \<Rightarrow>
          (let cond = (y < d)
           in if cond then Inr (2 * r * sin theta) else Inr (pslot * d))))"

section \<open>Closed rectangle\<close>

definition Rect_Closed_A_ik :: "real \<Rightarrow> real \<Rightarrow> real \<Rightarrow> real \<Rightarrow> real" where
  "Rect_Closed_A_ik h_Ik h_Ip1k g1 g2 =
    (let y_max = g1;
         b = g2;
         y = (h_Ik + h_Ip1k) / 2;
         y = (if y < 0 then 0 else y);
         y = (if y > y_max then y_max else y)
     in y * b)"

definition Rect_Closed_Pe_ik :: "real \<Rightarrow> real \<Rightarrow> real \<Rightarrow> real \<Rightarrow> real" where
  "Rect_Closed_Pe_ik h_Ik h_Ip1k g1 g2 =
    (let y_max = g1;
         b = g2;
         y = (h_Ik + h_Ip1k) / 2;
         y = (if y < 0 then 0 else y);
         y = (if y > y_max then y_max else y)
     in b + 2 * y)"

definition Rect_Closed_R_ik :: "real \<Rightarrow> real \<Rightarrow> real" where
  "Rect_Closed_R_ik A_ik Pe_ik =
    (let cond = Pe_ik > 0 in if cond then A_ik / Pe_ik else 0)"

definition Rect_Closed_B_ik :: "real \<Rightarrow> real \<Rightarrow> real \<Rightarrow> real \<Rightarrow> real \<Rightarrow> real" where
  "Rect_Closed_B_ik h_Ik h_Ip1k g1 g2 g3 =
    (let y_max = g1;
         b = g2;
         pslot = g3;
         y = (h_Ik + h_Ip1k) / 2;
         y = (if y < 0 then 0 else y);
         cond = (y < y_max)
     in if cond then b else pslot * b)"

section \<open>Open rectangle\<close>

definition Rect_Open_A_ik :: "real \<Rightarrow> real \<Rightarrow> real \<Rightarrow> real \<Rightarrow> real" where
  "Rect_Open_A_ik h_Ik h_Ip1k g1 g2 =
    (let y_max = g1;
         b = g2;
         y = (h_Ik + h_Ip1k) / 2;
         y = (if y < 0 then 0 else y);
         y = (if y > y_max then y_max else y)
     in y * b)"

definition Rect_Open_Pe_ik :: "real \<Rightarrow> real \<Rightarrow> real \<Rightarrow> real \<Rightarrow> real" where
  "Rect_Open_Pe_ik h_Ik h_Ip1k g1 g2 =
    (let y_max = g1;
         b = g2;
         y = (h_Ik + h_Ip1k) / 2;
         y = (if y < 0 then 0 else y);
         y = (if y > y_max then y_max else y)
     in b + 2 * y)"

definition Rect_Open_R_ik :: "real \<Rightarrow> real \<Rightarrow> real" where
  "Rect_Open_R_ik A_ik Pe_ik =
    (let cond = Pe_ik > 0 in if cond then A_ik / Pe_ik else 0)"

definition Rect_Open_B_ik :: "real \<Rightarrow> real \<Rightarrow> real \<Rightarrow> real \<Rightarrow> real" where
  "Rect_Open_B_ik h_Ik h_Ip1k g1 g2 =
    (let y_max = g1;
         b = g2
     in b)"

section \<open>Triangular\<close>

definition Triangular_A_ik :: "real \<Rightarrow> real \<Rightarrow> real \<Rightarrow> real \<Rightarrow> real" where
  "Triangular_A_ik h_Ik h_Ip1k g1 g2 =
    (let y_max = g1;
         m = g2;
         y = (h_Ik + h_Ip1k) / 2;
         y = (if y < 0 then 0 else y);
         y = (if y > y_max then y_max else y)
     in m * y ^ 2)"

definition Triangular_Pe_ik :: "real \<Rightarrow> real \<Rightarrow> real \<Rightarrow> real \<Rightarrow> fault + real" where
  "Triangular_Pe_ik h_Ik h_Ip1k g1 g2 =
    (let y_max = g1;
         m = g2;
         y = (h_Ik + h_Ip1k) / 2;
         y = (if y < 0 then 0 else y);
         y = (if y > y_max then y_max else y)
     in case np_sqrt (1 + m ^ 2) of Inl e \<Rightarrow> Inl e | Inr s \<Rightarrow>
          Inr (2 * y * s))"

definition Triangular_R_ik :: "real \<Rightarrow> real \<Rightarrow> real" where
  "Triangular_R_ik A_ik Pe_ik =
    (let cond = Pe_ik > 0 in if cond then A_ik / Pe_ik else 0)"

definition Triangular_B_ik :: "real \<Rightarrow> real \<Rightarrow> real \<Rightarrow> real \<Rightarrow> real" where
  "Triangular_B_ik h_Ik h_Ip1k g1 g2 =
    (let y_max = g1;
         m = g2;
         y = (h_Ik + h_Ip1k) / 2;
         y = (if y < 0 then 0 else y);
         cond = (y < y_max)
     in if cond then 2 * m * y else 2 * m * y_max)"

section \<open>Trapezoidal\<close>

definition Trapezoidal_A_ik :: "real \<Rightarrow> real \<Rightarrow> real \<Rightarrow> real \<Rightarrow> real \<Rightarrow> real" where
  "Trapezoidal_A_ik h_Ik h_Ip1k g1 g2 g3 =
    (let y_max = g1;
         b = g2;
         m = g3;
         y = (h_Ik + h_Ip1k) / 2;
         y = (if y < 0 then 0 else y);
         y = (if y > y_max then y_max else y)
     in y * (b + m * y))"

definition Trapezoidal_Pe_ik :: "real \<Rightarrow> real \<Rightarrow> real \<Rightarrow> real \<Rightarrow> real \<Rightarrow> fault + real" where
  "Trapezoidal_Pe_ik h_Ik h_Ip1k g1 g2 g3 =
    (let y_max = g1;
         b = g2;
         m = g3;
         y = (h_Ik + h_Ip1k) / 2;
         y = (if y < 0 then 0 else y);
         y = (if y > y_max then y_max else y)
     in case np_sqrt (1 + m ^ 2) of Inl e \<Rightarrow> Inl e | Inr s \<Rightarrow>
          Inr (b + 2 * y * s))"

definition Trapezoidal_R_ik :: "real \<Rightarrow> real \<Rightarrow> real" where
  "Trapezoidal_R_ik A_ik Pe_ik =
    (let cond = Pe_ik > 0 in if cond then A_ik / Pe_ik else 0)"

definition Trapezoidal_B_ik :: "real \<Rightarrow> real \<Rightarrow> real \<Rightarrow> real \<Rightarrow> real \<Rightarrow> real" where
  "Trapezoidal_B_ik h_Ik h_Ip1k g1 g2 g3 =
    (let y_max = g1;
         b = g2;
         m = g3;
         y = (h_Ik + h_Ip1k) / 2;
         y = (if y < 0 then 0 else y);
         cond = (y < y_max)
     in if cond then b + 2 * m * y else b + 2 * m * y_max)"

section \<open>Parabolic\<close>

definition Parabolic_A_ik :: "real \<Rightarrow> real \<Rightarrow> real \<Rightarrow> real \<Rightarrow> real" where
  "Parabolic_A_ik h_Ik h_Ip1k g1 g2 =
    (let y_max = g1;
         b = g2;
         y = (h_Ik + h_Ip1k) / 2;
         y = (if y < 0 then 0 else y);
         y = (if y > y_max then y_max else y)
     in 2 * b * y / 3)"

definition Parabolic_Pe_ik :: "real \<Rightarrow> real \<Rightarrow> real \<Rightarrow> real \<Rightarrow> fault + real" where
  "Parabolic_Pe_ik h_Ik h_Ip1k g1 g2 =
    (let y_max = g1;
         b = g2;
         y = (h_Ik + h_Ip1k) / 2;
         y = (if y \<le> 0 then eps else y);
         y = (if y > y_max then y_max else y)
     in case fdiv (4 * y) b of Inl e \<Rightarrow> Inl e | Inr x \<Rightarrow>
        case np_sqrt (1 + x ^ 2) of Inl e \<Rightarrow> Inl e | Inr s \<Rightarrow>
        case fdiv 1 x of Inl e \<Rightarrow> Inl e | Inr q \<Rightarrow>
        case np_sqrt (1 + x ^ 2) of Inl e \<Rightarrow> Inl e | Inr s' \<Rightarrow>
        case np_log (x + s') of Inl e \<Rightarrow> Inl e | Inr l \<Rightarrow>
          Inr ((b / 2) * (s + q * l)))"

definition Parabolic_R_ik :: "real \<Rightarrow> real \<Rightarrow> real" where
  "Parabolic_R_ik A_ik Pe_ik =
    (let cond = Pe_ik > 0 in if cond then A_ik / Pe_ik else 0)"

definition Parabolic_B_ik :: "real \<Rightarrow> real \<Rightarrow> real \<Rightarrow> real \<Rightarrow> fault + real" where
  "Parabolic_B_ik h_Ik h_Ip1k g1 g2 =
    (let y_max = g1;
         b = g2;
         y = (h_Ik + h_Ip1k) / 2;
         y = (if y < 0 then 0 else y)
     in case fdiv y y_max of Inl e \<Rightarrow> Inl e | Inr q \<Rightarrow>
        case np_sqrt q of Inl e \<Rightarrow> Inl e | Inr s \<Rightarrow>
          Inr (b * s))"

section \<open>Elliptical\<close>

text \<open>The source has no perimeter function for this shape.\<close>

definition Elliptical_A_ik :: "real \<Rightarrow> real \<Rightarrow> real \<Rightarrow> real \<Rightarrow> fault + real" where
  "Elliptical_A_ik h_Ik h_Ip1k g1 g2 =
    (let y_max = g1;
         b = g1 / 2;
         a = g2 / 2;
         y = (h_Ik + h_Ip1k) / 2;
         y = (if y < 0 then 0 else y);
         y = (if y > y_max then y_max else y)
     in case fdiv (y - b) b of Inl e \<Rightarrow> Inl e | Inr q \<Rightarrow>
        case np_arcsin q of Inl e \<Rightarrow> Inl e | Inr theta \<Rightarrow>
          (let A_a = a * b * (pi / 2 + theta);
               A_b = a * b * cos theta * sin theta
           in Inr (A_a + A_b)))"

definition Elliptical_R_ik :: "real \<Rightarrow> real \<Rightarrow> real" where
  "Elliptical_R_ik A_ik Pe_ik =
    (let cond = Pe_ik > 0 in if cond then A_ik / Pe_ik else 0)"

definition Elliptical_B_ik :: "real \<Rightarrow> real \<Rightarrow> real \<Rightarrow> real \<Rightarrow> fault + real" where
  "Elliptical_B_ik h_Ik h_Ip1k g1 g2 =
    (let y_max = g1;
         b = g1 / 2;
         a = g2 / 2;
         y = (h_Ik + h_Ip1k) / 2;
         y = (if y < 0 then 0 else y);
         y = (if y > y_max then y_max else y)
     in case fdiv (y - b) b of Inl e \<Rightarrow> Inl e | Inr q \<Rightarrow>
        case np_arcsin q of Inl e \<Rightarrow> Inl e | Inr theta \<Rightarrow>
        case np_sqrt (a ^ 2 * cos theta ^ 2 + b ^ 2 * sin theta ^ 2) of
          Inl e \<Rightarrow> Inl e
        | Inr s \<Rightarrow> Inr (2 * cos theta * s))"

section \<open>Wide\<close>

definition Wide_A_ik :: "real \<Rightarrow> real \<Rightarrow> real \<Rightarrow> real \<Rightarrow> real" where
  "Wide_A_ik h_Ik h_Ip1k g1 g2 =
    (let y_max = g1;
         b = g2;
         y = (h_Ik + h_Ip1k) / 2;
         y = (if y < 0 then 0 else y);
         y = (if y > y_max then y_max else y)
     in y * b)"

definition Wide_Pe_ik :: "real \<Rightarrow> real \<Rightarrow> real \<Rightarrow> real \<Rightarrow> real" where
  "Wide_Pe_ik h_Ik h_Ip1k g1 g2 = (let b = g2; Pe = b in Pe)"

definition Wide_R_ik :: "real \<Rightarrow> real \<Rightarrow> real" where
  "Wide_R_ik A_ik Pe_ik =
    (let cond = Pe_ik > 0 in if cond then A_ik / Pe_ik else 0)"

definition Wide_B_ik :: "real \<Rightarrow> real \<Rightarrow> real \<Rightarrow> real \<Rightarrow> real" where
  "Wide_B_ik h_Ik h_Ip1k g1 g2 =
    (let y_max = g1;
         b = g2
     in b)"

section \<open>Force main\<close>

definition Force_Main_A_ik :: "real \<Rightarrow> real \<Rightarrow> real \<Rightarrow> real \<Rightarrow> real" where
  "Force_Main_A_ik h_Ik h_Ip1k g1 g2 =
    (let d = g1;
         r = d / 2
     in pi * r ^ 2)"

definition Force_Main_Pe_ik :: "real \<Rightarrow> real \<Rightarrow> real \<Rightarrow> real \<Rightarrow> real" where
  "Force_Main_Pe_ik h_Ik h_Ip1k g1 g2 = (let d = g1 in pi * d)"

definition Force_Main_R_ik :: "real \<Rightarrow> real \<Rightarrow> real" where
  "Force_Main_R_ik A_ik Pe_ik =
    (let cond = Pe_ik > 0 in if cond then A_ik / Pe_ik else 0)"

definition Force_Main_B_ik :: "real \<Rightarrow> real \<Rightarrow> real \<Rightarrow> real \<Rightarrow> real" where
  "Force_Main_B_ik h_Ik h_Ip1k g1 g2 =
    (let d = g1;
         pslot = g2
     in pslot * d)"

section \<open>Floodplain\<close>

text \<open>
  The three functions branch with \<^verbatim>\<open>if y < y_mid: ... elif y >= y_mid: ...\<close>. On real
  numbers the second test is the negation of the first, so the \<^verbatim>\<open>elif\<close> arm is the
  \<open>else\<close> arm of the model.
\<close>

definition Floodplain_A_ik ::
  "real \<Rightarrow> real \<Rightarrow> real \<Rightarrow> real \<Rightarrow> real \<Rightarrow> real \<Rightarrow> real \<Rightarrow> real \<Rightarrow> real" where
  "Floodplain_A_ik h_Ik h_Ip1k g1 g2 g3 g4 g5 g6 =
    (let y_max = g1;
         y_mid = g2;
         b_lower = g3;
         b_upper = g4;
         m_lower = g5;
         m_upper = g6;
         y = (h_Ik + h_Ip1k) / 2;
         y = (if y < 0 then 0 else y);
         y = (if y > y_max then y_max else y);
         (y_lower, y_upper) = (if y < y_mid then (y, 0) else (y_mid, y - y_mid));
         A_lower = y_lower * (b_lower + m_lower * y_lower);
         A_upper = y_upper * (b_upper + m_upper * y_upper)
     in A_lower + A_upper)"

definition Floodplain_Pe_ik ::
  "real \<Rightarrow> real \<Rightarrow> real \<Rightarrow> real \<Rightarrow> real \<Rightarrow> real \<Rightarrow> real \<Rightarrow> real \<Rightarrow> fault + real" where
  "Floodplain_Pe_ik h_Ik h_Ip1k g1 g2 g3 g4 g5 g6 =
    (let y_max = g1;
         y_mid = g2;
         b_lower = g3;
         b_upper = g4;
         m_lower = g5;
         m_upper = g6;
         y = (h_Ik + h_Ip1k) / 2;
         b_mid = b_lower + 2 * m_lower * y_mid;
         y = (if y < 0 then 0 else y);
         y = (if y > y_max then y_max else y);
         (y_lower, y_upper, k) =
           (if y < y_mid then (y, 0, 0) else (y_mid, y - y_mid, 1))
     in case np_sqrt (1 + m_lower ^ 2) of Inl e \<Rightarrow> Inl e | Inr s_lower \<Rightarrow>
        case np_sqrt (1 + m_upper ^ 2) of Inl e \<Rightarrow> Inl e | Inr s_upper \<Rightarrow>
          (let Pe_lower = b_lower + 2 * y_lower * s_lower;
               Pe_upper = k * (b_upper - b_mid) + 2 * y_upper * s_upper
           in Inr (Pe_lower + Pe_upper)))"

definition Floodplain_R_ik :: "real \<Rightarrow> real \<Rightarrow> real" where
  "Floodplain_R_ik A_ik Pe_ik =
    (let cond = Pe_ik > 0 in if cond then A_ik / Pe_ik else 0)"

definition Floodplain_B_ik ::
  "real \<Rightarrow> real \<Rightarrow> real \<Rightarrow> real \<Rightarrow> real \<Rightarrow> real \<Rightarrow> real \<Rightarrow> real \<Rightarrow> real" where
  "Floodplain_B_ik h_Ik h_Ip1k g1 g2 g3 g4 g5 g6 =
    (let y_max = g1;
         y_mid = g2;
         b_lower = g3;
         b_upper = g4;
         m_lower = g5;
         m_upper = g6;
         y = (h_Ik + h_Ip1k) / 2;
         y = (if y < 0 then 0 else y);
         y = (if y > y_max then y_max else y)
     in if y < y_mid
        then (let y_lower = y in b_lower + 2 * m_lower * y_lower)
        else (let y_upper = y - y_mid in b_upper + 2 * m_upper * y_upper))"

section \<open>The rules of the specification\<close>

text \<open>
  Two definitions written from the words of the specification, to be compared with the
  functions above. \<open>radius\<close> is its shared hydraulic radius rule, "R = A/Pe if Pe > 0,
  else 0". \<open>effective_depth\<close> is its depth reducer, "computes the mean, then clamps to
  [0, y_max]".
\<close>

definition radius :: "real \<Rightarrow> real \<Rightarrow> real" where
  "radius A Pe = (if Pe > 0 then A / Pe else 0)"

definition effective_depth :: "real \<Rightarrow> real \<Rightarrow> real \<Rightarrow> real" where
  "effective_depth h_upstream h_downstream y_max =
    (let y = (h_upstream + h_downstream) / 2 in min (max y 0) y_max)"

section \<open>Basic facts\<close>

lemma np_sqrt_one_plus_sq [simp]: "np_sqrt (1 + m ^ 2) = Inr (sqrt (1 + m ^ 2))"
  by (simp add: np_sqrt_def)

lemmas R_defs = Circular_R_ik_def Rect_Closed_R_ik_def Rect_Open_R_ik_def Triangular_R_ik_def
  Trapezoidal_R_ik_def Parabolic_R_ik_def Elliptical_R_ik_def Wide_R_ik_def Force_Main_R_ik_def
  Floodplain_R_ik_def

section \<open>Hydraulic radius\<close>

text \<open>
  Claim C4. The ten hydraulic radius functions, one per shape, all compute the rule of the
  specification: the quotient of area and perimeter where the perimeter is positive and
  zero otherwise; at perimeter zero the result is zero for every area.
\<close>

theorem hydraulic_radius_shared_rule:
  "Circular_R_ik A Pe = radius A Pe \<and> Rect_Closed_R_ik A Pe = radius A Pe \<and>
   Rect_Open_R_ik A Pe = radius A Pe \<and> Triangular_R_ik A Pe = radius A Pe \<and>
   Trapezoidal_R_ik A Pe = radius A Pe \<and> Parabolic_R_ik A Pe = radius A Pe \<and>
   Elliptical_R_ik A Pe = radius A Pe \<and> Wide_R_ik A Pe = radius A Pe \<and>
   Force_Main_R_ik A Pe = radius A Pe \<and> Floodplain_R_ik A Pe = radius A Pe \<and>
   radius A Pe = (if Pe > 0 then A / Pe else 0) \<and> radius A 0 = 0"
  by (simp add: R_defs radius_def)

section \<open>The closed rectangle's top width\<close>

text \<open>
  Claim C7. The top width of the closed rectangle is the width \<open>b\<close> while the effective
  depth is below the height, and the slot width \<open>pslot * b\<close> once it has reached the
  height; it takes no other value. With height 1, width 1 and slot ratio 0.001 the top
  width at depth 1 is 0.001.
\<close>

theorem rect_closed_top_width_jump:
  "(effective_depth h_Ik h_Ip1k y_max < y_max \<longrightarrow>
      Rect_Closed_B_ik h_Ik h_Ip1k y_max b pslot = b) \<and>
   (0 < y_max \<and> effective_depth h_Ik h_Ip1k y_max \<ge> y_max \<longrightarrow>
      Rect_Closed_B_ik h_Ik h_Ip1k y_max b pslot = pslot * b) \<and>
   (Rect_Closed_B_ik h_Ik h_Ip1k y_max b pslot = b \<or>
    Rect_Closed_B_ik h_Ik h_Ip1k y_max b pslot = pslot * b) \<and>
   Rect_Closed_B_ik 1 1 1 1 (1/1000) = 1/1000"
  by (auto simp add: Rect_Closed_B_ik_def effective_depth_def Let_def min_def max_def
      split: if_splits)

theorem rect_closed_top_width_jump_witness:
  "effective_depth (1/2) (1/2) 1 < 1 \<and> Rect_Closed_B_ik (1/2) (1/2) 1 2 (1/1000) = 2 \<and>
   (0::real) < 1 \<and> effective_depth 3 1 1 \<ge> 1 \<and>
   Rect_Closed_B_ik 3 1 1 2 (1/1000) = (1/1000) * 2"
  using rect_closed_top_width_jump [of "1/2" "1/2" 1 2 "1/1000"]
    rect_closed_top_width_jump [of 3 1 1 2 "1/1000"]
  by (simp add: effective_depth_def)

section \<open>Symmetry in the two depths\<close>

text \<open>
  Claim C10. Every area, perimeter and top width function gives the same result when its
  two junction depths are exchanged, since it reads them through their sum only. (The
  elliptical shape has no perimeter function.)
\<close>

theorem evaluators_symmetric_in_depths:
  "Circular_A_ik h_Ik h_Ip1k g1 = Circular_A_ik h_Ip1k h_Ik g1 \<and>
   Circular_Pe_ik h_Ik h_Ip1k g1 = Circular_Pe_ik h_Ip1k h_Ik g1 \<and>
   Circular_B_ik h_Ik h_Ip1k g1 g2 = Circular_B_ik h_Ip1k h_Ik g1 g2 \<and>
   Rect_Closed_A_ik h_Ik h_Ip1k g1 g2 = Rect_Closed_A_ik h_Ip1k h_Ik g1 g2 \<and>
   Rect_Closed_Pe_ik h_Ik h_Ip1k g1 g2 = Rect_Closed_Pe_ik h_Ip1k h_Ik g1 g2 \<and>
   Rect_Closed_B_ik h_Ik h_Ip1k g1 g2 g3 = Rect_Closed_B_ik h_Ip1k h_Ik g1 g2 g3 \<and>
   Rect_Open_A_ik h_Ik h_Ip1k g1 g2 = Rect_Open_A_ik h_Ip1k h_Ik g1 g2 \<and>
   Rect_Open_Pe_ik h_Ik h_Ip1k g1 g2 = Rect_Open_Pe_ik h_Ip1k h_Ik g1 g2 \<and>
   Rect_Open_B_ik h_Ik h_Ip1k g1 g2 = Rect_Open_B_ik h_Ip1k h_Ik g1 g2 \<and>
   Triangular_A_ik h_Ik h_Ip1k g1 g2 = Triangular_A_ik h_Ip1k h_Ik g1 g2 \<and>
   Triangular_Pe_ik h_Ik h_Ip1k g1 g2 = Triangular_Pe_ik h_Ip1k h_Ik g1 g2 \<and>
   Triangular_B_ik h_Ik h_Ip1k g1 g2 = Triangular_B_ik h_Ip1k h_Ik g1 g2 \<and>
   Trapezoidal_A_ik h_Ik h_Ip1k g1 g2 g3 = Trapezoidal_A_ik h_Ip1k h_Ik g1 g2 g3 \<and>
   Trapezoidal_Pe_ik h_Ik h_Ip1k g1 g2 g3 = Trapezoidal_Pe_ik h_Ip1k h_Ik g1 g2 g3 \<and>
   Trapezoidal_B_ik h_Ik h_Ip1k g1 g2 g3 = Trapezoidal_B_ik h_Ip1k h_Ik g1 g2 g3 \<and>
   Parabolic_A_ik h_Ik h_Ip1k g1 g2 = Parabolic_A_ik h_Ip1k h_Ik g1 g2 \<and>
   Parabolic_Pe_ik h_Ik h_Ip1k g1 g2 = Parabolic_Pe_ik h_Ip1k h_Ik g1 g2 \<and>
   Parabolic_B_ik h_Ik h_Ip1k g1 g2 = Parabolic_B_ik h_Ip1k h_Ik g1 g2 \<and>
   Elliptical_A_ik h_Ik h_Ip1k g1 g2 = Elliptical_A_ik h_Ip1k h_Ik g1 g2 \<and>
   Elliptical_B_ik h_Ik h_Ip1k g1 g2 = Elliptical_B_ik h_Ip1k h_Ik g1 g2 \<and>
   Wide_A_ik h_Ik h_Ip1k g1 g2 = Wide_A_ik h_Ip1k h_Ik g1 g2 \<and>
   Wide_Pe_ik h_Ik h_Ip1k g1 g2 = Wide_Pe_ik h_Ip1k h_Ik g1 g2 \<and>
   Wide_B_ik h_Ik h_Ip1k g1 g2 = Wide_B_ik h_Ip1k h_Ik g1 g2 \<and>
   Force_Main_A_ik h_Ik h_Ip1k g1 g2 = Force_Main_A_ik h_Ip1k h_Ik g1 g2 \<and>
   Force_Main_Pe_ik h_Ik h_Ip1k g1 g2 = Force_Main_Pe_ik h_Ip1k h_Ik g1 g2 \<and>
   Force_Main_B_ik h_Ik h_Ip1k g1 g2 = Force_Main_B_ik h_Ip1k h_Ik g1 g2 \<and>
   Floodplain_A_ik h_Ik h_Ip1k g1 g2 g3 g4 g5 g6 =
     Floodplain_A_ik h_Ip1k h_Ik g1 g2 g3 g4 g5 g6 \<and>
   Floodplain_Pe_ik h_Ik h_Ip1k g1 g2 g3 g4 g5 g6 =
     Floodplain_Pe_ik h_Ip1k h_Ik g1 g2 g3 g4 g5 g6 \<and>
   Floodplain_B_ik h_Ik h_Ip1k g1 g2 g3 g4 g5 g6 =
     Floodplain_B_ik h_Ip1k h_Ik g1 g2 g3 g4 g5 g6"
  unfolding Circular_A_ik_def Circular_Pe_ik_def Circular_B_ik_def
    Rect_Closed_A_ik_def Rect_Closed_Pe_ik_def Rect_Closed_B_ik_def
    Rect_Open_A_ik_def Rect_Open_Pe_ik_def Rect_Open_B_ik_def
    Triangular_A_ik_def Triangular_Pe_ik_def Triangular_B_ik_def
    Trapezoidal_A_ik_def Trapezoidal_Pe_ik_def Trapezoidal_B_ik_def
    Parabolic_A_ik_def Parabolic_Pe_ik_def Parabolic_B_ik_def
    Elliptical_A_ik_def Elliptical_B_ik_def
    Wide_A_ik_def Wide_Pe_ik_def Wide_B_ik_def
    Force_Main_A_ik_def Force_Main_Pe_ik_def Force_Main_B_ik_def
    Floodplain_A_ik_def Floodplain_Pe_ik_def Floodplain_B_ik_def
    add.commute [of h_Ip1k h_Ik]
  by (intro conjI refl)

section \<open>Clamping and trigonometric facts\<close>

lemma segment_mono:
  fixes s t :: real
  assumes "s \<le> t"
  shows "s - cos s * sin s \<le> t - cos t * sin t"
proof -
  have "sin (2 * t) - sin (2 * s) = 2 * sin (t - s) * cos (t + s)"
    by (simp add: sin_diff_sin diff_divide_distrib add_divide_distrib)
  moreover have "sin (t - s) * cos (t + s) \<le> \<bar>sin (t - s)\<bar> * \<bar>cos (t + s)\<bar>"
    by (metis abs_ge_self abs_mult)
  moreover have "\<bar>sin (t - s)\<bar> * \<bar>cos (t + s)\<bar> \<le> \<bar>t - s\<bar> * 1"
    by (intro mult_mono abs_sin_x_le_abs_x) simp_all
  ultimately have "sin (2 * t) - sin (2 * s) \<le> 2 * (t - s)"
    using assms by simp
  then have "sin (2 * t) / 2 - sin (2 * s) / 2 \<le> t - s"
    by simp
  moreover have "cos t * sin t = sin (2 * t) / 2" "cos s * sin s = sin (2 * s) / 2"
    by (simp_all add: sin_double)
  ultimately show ?thesis
    by simp
qed

lemma clamp_ifs:
  "(if (if m < 0 then 0 else m) > d then d else (if m < 0 then 0 else m)) = min (max m 0) (d::real)"
  by (simp add: min_def max_def)

lemma effective_depth_range: "0 \<le> y_max \<Longrightarrow>
  0 \<le> effective_depth h_Ik h_Ip1k y_max \<and> effective_depth h_Ik h_Ip1k y_max \<le> y_max"
  by (simp add: effective_depth_def Let_def)

lemma circular_phi:
  assumes "0 < d"
  shows "fdiv (effective_depth h_Ik h_Ip1k d) (d / 2) = Inr (effective_depth h_Ik h_Ip1k d / (d / 2))"
    and "\<not> effective_depth h_Ik h_Ip1k d / (d / 2) < 0"
    and "\<not> effective_depth h_Ik h_Ip1k d / (d / 2) > 2"
    and "np_arccos (1 - effective_depth h_Ik h_Ip1k d / (d / 2)) =
          Inr (arccos (1 - effective_depth h_Ik h_Ip1k d / (d / 2)))"
  using assms effective_depth_range [of d h_Ik h_Ip1k]
  by (simp_all add: fdiv_def np_arccos_def not_less divide_le_eq)

lemma Circular_A_ik_pos:
  assumes "0 < d"
  shows "Circular_A_ik h_Ik h_Ip1k d =
    Inr ((d / 2) ^ 2 *
      (arccos (1 - effective_depth h_Ik h_Ip1k d / (d / 2))
       - cos (arccos (1 - effective_depth h_Ik h_Ip1k d / (d / 2)))
         * sin (arccos (1 - effective_depth h_Ik h_Ip1k d / (d / 2)))))"
proof -
  have "Circular_A_ik h_Ik h_Ip1k d =
    (case fdiv (effective_depth h_Ik h_Ip1k d) (d / 2) of Inl e \<Rightarrow> Inl e | Inr phi \<Rightarrow>
       (let phi = (if phi < 0 then 0 else phi);
            phi = (if phi > 2 then 2 else phi)
        in case np_arccos (1 - phi) of Inl e \<Rightarrow> Inl e | Inr theta \<Rightarrow>
          Inr ((d / 2) ^ 2 * (theta - cos theta * sin theta))))"
    unfolding Circular_A_ik_def effective_depth_def Let_def clamp_ifs ..
  then show ?thesis
    using circular_phi [OF assms, of h_Ik h_Ip1k] by (simp only: Let_def sum.case if_False)
qed

section \<open>The circular pipe at a positive diameter\<close>

lemma Circular_Pe_ik_pos:
  assumes "0 < d"
  shows "Circular_Pe_ik h_Ik h_Ip1k d =
    Inr (2 * (d / 2) * arccos (1 - effective_depth h_Ik h_Ip1k d / (d / 2)))"
proof -
  have "Circular_Pe_ik h_Ik h_Ip1k d =
    (case fdiv (effective_depth h_Ik h_Ip1k d) (d / 2) of Inl e \<Rightarrow> Inl e | Inr phi \<Rightarrow>
       (let phi = (if phi < 0 then 0 else phi);
            phi = (if phi > 2 then 2 else phi)
        in case np_arccos (1 - phi) of Inl e \<Rightarrow> Inl e | Inr theta \<Rightarrow>
          Inr (2 * (d / 2) * theta)))"
    unfolding Circular_Pe_ik_def effective_depth_def Let_def clamp_ifs ..
  then show ?thesis
    using circular_phi [OF assms, of h_Ik h_Ip1k] by (simp only: Let_def sum.case if_False)
qed

lemma circular_arg_range:
  assumes "0 < d"
  shows "- 1 \<le> 1 - effective_depth h_Ik h_Ip1k d / (d / 2)"
    and "1 - effective_depth h_Ik h_Ip1k d / (d / 2) \<le> 1"
  using assms effective_depth_range [of d h_Ik h_Ip1k]
  by (simp_all add: divide_le_eq)

lemma Circular_B_ik_pos:
  assumes "0 < d"
  shows "Circular_B_ik h_Ik h_Ip1k d pslot =
    Inr (if effective_depth h_Ik h_Ip1k d < d
         then 2 * (d / 2) * sin (arccos (1 - effective_depth h_Ik h_Ip1k d / (d / 2)))
         else pslot * d)"
proof -
  let ?y = "if (h_Ik + h_Ip1k) / 2 < 0 then 0 else (h_Ik + h_Ip1k) / 2"
  have B: "Circular_B_ik h_Ik h_Ip1k d pslot =
    (case fdiv ?y (d / 2) of Inl e \<Rightarrow> Inl e | Inr phi \<Rightarrow>
       (let phi = (if phi < 0 then 0 else phi);
            phi = (if phi > 2 then 2 else phi)
        in case np_arccos (1 - phi) of Inl e \<Rightarrow> Inl e | Inr theta \<Rightarrow>
          (if ?y < d then Inr (2 * (d / 2) * sin theta) else Inr (pslot * d))))"
    unfolding Circular_B_ik_def Let_def ..
  show ?thesis
  proof (cases "?y < d")
    case True
    then have e: "?y = effective_depth h_Ik h_Ip1k d"
      by (auto simp add: effective_depth_def Let_def min_def max_def split: if_splits)
    show ?thesis
      using circular_phi [OF assms, of h_Ik h_Ip1k] True
      unfolding B e by (simp only: Let_def sum.case if_False if_True)
  next
    case False
    then have e: "effective_depth h_Ik h_Ip1k d = d"
      by (auto simp add: effective_depth_def Let_def min_def max_def split: if_splits)
    have "2 \<le> ?y / (d / 2)"
      using False assms by (simp add: le_divide_eq)
    then show ?thesis
      using False assms unfolding B e
      by (simp add: fdiv_def np_arccos_def Let_def)
  qed
qed

lemma Circular_A_ik_mono:
  assumes "0 < d" "effective_depth h1 h2 d \<le> effective_depth k1 k2 d"
  shows "\<exists>a1 a2. Circular_A_ik h1 h2 d = Inr a1 \<and> Circular_A_ik k1 k2 d = Inr a2 \<and> a1 \<le> a2"
proof -
  let ?t1 = "arccos (1 - effective_depth h1 h2 d / (d / 2))"
  let ?t2 = "arccos (1 - effective_depth k1 k2 d / (d / 2))"
  have "1 - effective_depth k1 k2 d / (d / 2) \<le> 1 - effective_depth h1 h2 d / (d / 2)"
    using assms by (simp add: divide_le_cancel)
  then have "?t1 \<le> ?t2"
    using circular_arg_range [OF assms(1), of h1 h2] circular_arg_range [OF assms(1), of k1 k2]
    by (subst arccos_le_mono) simp_all
  then have "?t1 - cos ?t1 * sin ?t1 \<le> ?t2 - cos ?t2 * sin ?t2"
    by (rule segment_mono)
  then have "(d / 2) ^ 2 * (?t1 - cos ?t1 * sin ?t1) \<le> (d / 2) ^ 2 * (?t2 - cos ?t2 * sin ?t2)"
    by (intro mult_left_mono) simp_all
  then show ?thesis
    unfolding Circular_A_ik_pos [OF assms(1)] by blast
qed

section \<open>The half-full circular pipe\<close>

text \<open>
  Claim C9. A circular pipe of diameter 1 at effective depth 0.5, whichever pair of
  junction depths gives that depth, has area \<open>pi / 8\<close>, wetted perimeter \<open>pi / 2\<close>,
  hydraulic radius \<open>1 / 4\<close> and top width 1, whatever its slot ratio.
\<close>

theorem circular_half_full:
  assumes "effective_depth h_Ik h_Ip1k 1 = 1 / 2"
  shows "Circular_A_ik h_Ik h_Ip1k 1 = Inr (pi / 8) \<and>
   Circular_Pe_ik h_Ik h_Ip1k 1 = Inr (pi / 2) \<and>
   Circular_R_ik (pi / 8) (pi / 2) = 1 / 4 \<and>
   Circular_B_ik h_Ik h_Ip1k 1 pslot = Inr 1"
  using assms
  by (simp add: Circular_A_ik_pos Circular_Pe_ik_pos Circular_B_ik_pos Circular_R_ik_def
      power2_eq_square)

theorem circular_half_full_witness:
  "effective_depth 0 1 1 = 1 / 2 \<and> effective_depth (1/2) (1/2) 1 = 1 / 2 \<and>
   Circular_A_ik 0 1 1 = Inr (pi / 8) \<and> Circular_A_ik (1/2) (1/2) 1 = Inr (pi / 8) \<and>
   Circular_Pe_ik 0 1 1 = Inr (pi / 2) \<and> Circular_Pe_ik (1/2) (1/2) 1 = Inr (pi / 2) \<and>
   Circular_R_ik (pi / 8) (pi / 2) = 1 / 4 \<and>
   Circular_B_ik 0 1 1 (1/1000) = Inr 1 \<and> Circular_B_ik (1/2) (1/2) 1 (1/1000) = Inr 1"
proof -
  have h: "effective_depth 0 1 1 = 1 / 2" "effective_depth (1/2) (1/2) 1 = 1 / 2"
    by (simp_all add: effective_depth_def)
  show ?thesis
    using h circular_half_full [OF h(1), of "1/1000"] circular_half_full [OF h(2), of "1/1000"]
    by simp
qed

section \<open>Areas as functions of the effective depth\<close>

lemma trapezoid_mono:
  fixes x y b m :: real
  assumes "0 \<le> b" "0 \<le> m" "0 \<le> x" "x \<le> y"
  shows "x * (b + m * x) \<le> y * (b + m * y)"
  using assms by (intro mult_mono add_mono mult_left_mono) auto

lemma Rect_Closed_A_ik_eff:
  "Rect_Closed_A_ik h_Ik h_Ip1k g1 g2 = effective_depth h_Ik h_Ip1k g1 * g2"
  unfolding Rect_Closed_A_ik_def effective_depth_def Let_def clamp_ifs ..

lemma Rect_Open_A_ik_eff:
  "Rect_Open_A_ik h_Ik h_Ip1k g1 g2 = effective_depth h_Ik h_Ip1k g1 * g2"
  unfolding Rect_Open_A_ik_def effective_depth_def Let_def clamp_ifs ..

lemma Wide_A_ik_eff:
  "Wide_A_ik h_Ik h_Ip1k g1 g2 = effective_depth h_Ik h_Ip1k g1 * g2"
  unfolding Wide_A_ik_def effective_depth_def Let_def clamp_ifs ..

lemma Triangular_A_ik_eff:
  "Triangular_A_ik h_Ik h_Ip1k g1 g2 = g2 * effective_depth h_Ik h_Ip1k g1 ^ 2"
  unfolding Triangular_A_ik_def effective_depth_def Let_def clamp_ifs ..

lemma Trapezoidal_A_ik_eff:
  "Trapezoidal_A_ik h_Ik h_Ip1k g1 g2 g3 =
     effective_depth h_Ik h_Ip1k g1 * (g2 + g3 * effective_depth h_Ik h_Ip1k g1)"
  unfolding Trapezoidal_A_ik_def effective_depth_def Let_def clamp_ifs ..

lemma Parabolic_A_ik_eff:
  "Parabolic_A_ik h_Ik h_Ip1k g1 g2 = 2 * g2 * effective_depth h_Ik h_Ip1k g1 / 3"
  unfolding Parabolic_A_ik_def effective_depth_def Let_def clamp_ifs ..

lemma Floodplain_A_ik_eff:
  "Floodplain_A_ik h_Ik h_Ip1k g1 g2 g3 g4 g5 g6 =
    (if effective_depth h_Ik h_Ip1k g1 < g2
     then effective_depth h_Ik h_Ip1k g1 * (g3 + g5 * effective_depth h_Ik h_Ip1k g1)
     else g2 * (g3 + g5 * g2)
          + (effective_depth h_Ik h_Ip1k g1 - g2) * (g4 + g6 * (effective_depth h_Ik h_Ip1k g1 - g2)))"
  unfolding Floodplain_A_ik_def effective_depth_def Let_def clamp_ifs
  by simp

lemma Floodplain_A_ik_mono:
  assumes "0 \<le> g1" "0 \<le> g2" "0 \<le> g3" "0 \<le> g4" "0 \<le> g5" "0 \<le> g6"
    and "effective_depth h1 h2 g1 \<le> effective_depth k1 k2 g1"
  shows "Floodplain_A_ik h1 h2 g1 g2 g3 g4 g5 g6 \<le> Floodplain_A_ik k1 k2 g1 g2 g3 g4 g5 g6"
proof -
  let ?c1 = "effective_depth h1 h2 g1" and ?c2 = "effective_depth k1 k2 g1"
  have c1: "0 \<le> ?c1" and c2: "0 \<le> ?c2"
    using effective_depth_range [OF assms(1)] by simp_all
  consider "?c2 < g2" | "?c1 < g2" "g2 \<le> ?c2" | "g2 \<le> ?c1"
    by linarith
  then show ?thesis
  proof cases
    case 1
    then show ?thesis
      using assms c1 by (simp add: Floodplain_A_ik_eff trapezoid_mono)
  next
    case 2
    have "?c1 * (g3 + g5 * ?c1) \<le> g2 * (g3 + g5 * g2)"
      using 2 assms c1 by (intro trapezoid_mono) simp_all
    moreover have "0 \<le> (?c2 - g2) * (g4 + g6 * (?c2 - g2))"
      using 2 assms by simp
    ultimately show ?thesis
      using 2 by (simp add: Floodplain_A_ik_eff)
  next
    case 3
    then have "(?c1 - g2) * (g4 + g6 * (?c1 - g2)) \<le> (?c2 - g2) * (g4 + g6 * (?c2 - g2))"
      using assms by (intro trapezoid_mono) simp_all
    then show ?thesis
      using 3 assms(7) by (simp add: Floodplain_A_ik_eff)
  qed
qed

section \<open>Monotone areas\<close>

text \<open>
  Claim C6, as amended. For the circular pipe of positive diameter, and for the closed and
  open rectangle, the triangle, the trapezoid, the wide channel and the floodplain with
  nonnegative parameters, the area does not decrease when the effective depth grows. The
  effective depth of a pair of junction depths is their mean clamped to the height, so it
  always lies between zero and the height. At diameter zero the circular area function
  divides by the radius and raises, which is why the diameter has to be positive.
\<close>

theorem area_monotone_in_depth:
  assumes "effective_depth h1 h2 g1 \<le> effective_depth k1 k2 g1"
  shows "(0 < g1 \<longrightarrow>
      (\<exists>a1 a2. Circular_A_ik h1 h2 g1 = Inr a1 \<and> Circular_A_ik k1 k2 g1 = Inr a2 \<and> a1 \<le> a2)) \<and>
    (0 \<le> g1 \<and> 0 \<le> g2 \<longrightarrow> Rect_Closed_A_ik h1 h2 g1 g2 \<le> Rect_Closed_A_ik k1 k2 g1 g2) \<and>
    (0 \<le> g1 \<and> 0 \<le> g2 \<longrightarrow> Rect_Open_A_ik h1 h2 g1 g2 \<le> Rect_Open_A_ik k1 k2 g1 g2) \<and>
    (0 \<le> g1 \<and> 0 \<le> g2 \<longrightarrow> Triangular_A_ik h1 h2 g1 g2 \<le> Triangular_A_ik k1 k2 g1 g2) \<and>
    (0 \<le> g1 \<and> 0 \<le> g2 \<and> 0 \<le> g3 \<longrightarrow>
       Trapezoidal_A_ik h1 h2 g1 g2 g3 \<le> Trapezoidal_A_ik k1 k2 g1 g2 g3) \<and>
    (0 \<le> g1 \<and> 0 \<le> g2 \<longrightarrow> Wide_A_ik h1 h2 g1 g2 \<le> Wide_A_ik k1 k2 g1 g2) \<and>
    (0 \<le> g1 \<and> 0 \<le> g2 \<and> 0 \<le> g3 \<and> 0 \<le> g4 \<and> 0 \<le> g5 \<and> 0 \<le> g6 \<longrightarrow>
       Floodplain_A_ik h1 h2 g1 g2 g3 g4 g5 g6 \<le> Floodplain_A_ik k1 k2 g1 g2 g3 g4 g5 g6)"
proof (intro conjI impI)
  assume "0 < g1"
  then show "\<exists>a1 a2. Circular_A_ik h1 h2 g1 = Inr a1 \<and> Circular_A_ik k1 k2 g1 = Inr a2 \<and> a1 \<le> a2"
    using assms by (rule Circular_A_ik_mono)
next
  assume "0 \<le> g1 \<and> 0 \<le> g2"
  then show "Rect_Closed_A_ik h1 h2 g1 g2 \<le> Rect_Closed_A_ik k1 k2 g1 g2"
    using assms by (simp add: Rect_Closed_A_ik_eff mult_right_mono)
next
  assume "0 \<le> g1 \<and> 0 \<le> g2"
  then show "Rect_Open_A_ik h1 h2 g1 g2 \<le> Rect_Open_A_ik k1 k2 g1 g2"
    using assms by (simp add: Rect_Open_A_ik_eff mult_right_mono)
next
  assume "0 \<le> g1 \<and> 0 \<le> g2"
  then show "Triangular_A_ik h1 h2 g1 g2 \<le> Triangular_A_ik k1 k2 g1 g2"
    using assms effective_depth_range [of g1 h1 h2]
    by (simp add: Triangular_A_ik_eff mult_left_mono power_mono)
next
  assume "0 \<le> g1 \<and> 0 \<le> g2 \<and> 0 \<le> g3"
  then show "Trapezoidal_A_ik h1 h2 g1 g2 g3 \<le> Trapezoidal_A_ik k1 k2 g1 g2 g3"
    using assms effective_depth_range [of g1 h1 h2]
    by (simp add: Trapezoidal_A_ik_eff trapezoid_mono)
next
  assume "0 \<le> g1 \<and> 0 \<le> g2"
  then show "Wide_A_ik h1 h2 g1 g2 \<le> Wide_A_ik k1 k2 g1 g2"
    using assms by (simp add: Wide_A_ik_eff mult_right_mono)
next
  assume "0 \<le> g1 \<and> 0 \<le> g2 \<and> 0 \<le> g3 \<and> 0 \<le> g4 \<and> 0 \<le> g5 \<and> 0 \<le> g6"
  then show "Floodplain_A_ik h1 h2 g1 g2 g3 g4 g5 g6 \<le> Floodplain_A_ik k1 k2 g1 g2 g3 g4 g5 g6"
    using assms by (intro Floodplain_A_ik_mono) simp_all
qed

theorem area_monotone_counterexample:
  "effective_depth 0 0 0 \<le> effective_depth 0 0 0 \<and> Circular_A_ik 0 0 0 = Inl ZeroDivisionError"
  by (simp add: Circular_A_ik_def fdiv_def)

theorem area_monotone_in_depth_witness:
  "effective_depth (1/2) (1/2) 2 \<le> effective_depth 1 3 2 \<and>
   (\<exists>a1 a2. Circular_A_ik (1/2) (1/2) 2 = Inr a1 \<and> Circular_A_ik 1 3 2 = Inr a2 \<and> a1 \<le> a2) \<and>
   Rect_Closed_A_ik (1/2) (1/2) 2 1 \<le> Rect_Closed_A_ik 1 3 2 1 \<and>
   Rect_Open_A_ik (1/2) (1/2) 2 1 \<le> Rect_Open_A_ik 1 3 2 1 \<and>
   Triangular_A_ik (1/2) (1/2) 2 1 \<le> Triangular_A_ik 1 3 2 1 \<and>
   Trapezoidal_A_ik (1/2) (1/2) 2 1 1 \<le> Trapezoidal_A_ik 1 3 2 1 1 \<and>
   Wide_A_ik (1/2) (1/2) 2 1 \<le> Wide_A_ik 1 3 2 1 \<and>
   Floodplain_A_ik (1/2) (1/2) 2 1 1 1 1 1 \<le> Floodplain_A_ik 1 3 2 1 1 1 1 1"
proof -
  have h: "effective_depth (1/2) (1/2) 2 \<le> effective_depth 1 3 2"
    by (simp add: effective_depth_def)
  show ?thesis
    using h area_monotone_in_depth [OF h, of 1 1 1 1 1] by simp
qed

section \<open>Perimeters and top widths as functions of the effective depth\<close>

lemma Rect_Closed_Pe_ik_eff:
  "Rect_Closed_Pe_ik h_Ik h_Ip1k g1 g2 = g2 + 2 * effective_depth h_Ik h_Ip1k g1"
  unfolding Rect_Closed_Pe_ik_def effective_depth_def Let_def clamp_ifs ..

lemma Rect_Open_Pe_ik_eff:
  "Rect_Open_Pe_ik h_Ik h_Ip1k g1 g2 = g2 + 2 * effective_depth h_Ik h_Ip1k g1"
  unfolding Rect_Open_Pe_ik_def effective_depth_def Let_def clamp_ifs ..

lemma Rect_Closed_B_ik_eff:
  "Rect_Closed_B_ik h_Ik h_Ip1k g1 g2 g3 =
     (if effective_depth h_Ik h_Ip1k g1 < g1 then g2 else g3 * g2)"
  by (auto simp add: Rect_Closed_B_ik_def effective_depth_def Let_def min_def max_def)

lemma Triangular_Pe_ik_eff:
  "Triangular_Pe_ik h_Ik h_Ip1k g1 g2 =
     Inr (2 * effective_depth h_Ik h_Ip1k g1 * sqrt (1 + g2 ^ 2))"
  unfolding Triangular_Pe_ik_def effective_depth_def Let_def clamp_ifs
  by simp

lemma Triangular_B_ik_eff:
  "Triangular_B_ik h_Ik h_Ip1k g1 g2 = 2 * g2 * effective_depth h_Ik h_Ip1k g1"
  by (auto simp add: Triangular_B_ik_def effective_depth_def Let_def min_def max_def)

lemma Trapezoidal_Pe_ik_eff:
  "Trapezoidal_Pe_ik h_Ik h_Ip1k g1 g2 g3 =
     Inr (g2 + 2 * effective_depth h_Ik h_Ip1k g1 * sqrt (1 + g3 ^ 2))"
  unfolding Trapezoidal_Pe_ik_def effective_depth_def Let_def clamp_ifs
  by simp

lemma Trapezoidal_B_ik_eff:
  "Trapezoidal_B_ik h_Ik h_Ip1k g1 g2 g3 = g2 + 2 * g3 * effective_depth h_Ik h_Ip1k g1"
  by (auto simp add: Trapezoidal_B_ik_def effective_depth_def Let_def min_def max_def)

lemma Floodplain_Pe_ik_eff:
  "Floodplain_Pe_ik h_Ik h_Ip1k g1 g2 g3 g4 g5 g6 =
    Inr (if effective_depth h_Ik h_Ip1k g1 < g2
         then g3 + 2 * effective_depth h_Ik h_Ip1k g1 * sqrt (1 + g5 ^ 2)
         else g3 + 2 * g2 * sqrt (1 + g5 ^ 2) + ((g4 - (g3 + 2 * g5 * g2))
              + 2 * (effective_depth h_Ik h_Ip1k g1 - g2) * sqrt (1 + g6 ^ 2)))"
  unfolding Floodplain_Pe_ik_def effective_depth_def Let_def clamp_ifs
  by simp

lemma Floodplain_B_ik_eff:
  "Floodplain_B_ik h_Ik h_Ip1k g1 g2 g3 g4 g5 g6 =
    (if effective_depth h_Ik h_Ip1k g1 < g2
     then g3 + 2 * g5 * effective_depth h_Ik h_Ip1k g1
     else g4 + 2 * g6 * (effective_depth h_Ik h_Ip1k g1 - g2))"
  unfolding Floodplain_B_ik_def effective_depth_def Let_def clamp_ifs ..

lemma elliptical_arg:
  assumes "0 < g1"
  shows "fdiv (effective_depth h_Ik h_Ip1k g1 - g1 / 2) (g1 / 2) =
           Inr ((effective_depth h_Ik h_Ip1k g1 - g1 / 2) / (g1 / 2))"
    and "- 1 \<le> (effective_depth h_Ik h_Ip1k g1 - g1 / 2) / (g1 / 2)"
    and "(effective_depth h_Ik h_Ip1k g1 - g1 / 2) / (g1 / 2) \<le> 1"
    and "np_arcsin ((effective_depth h_Ik h_Ip1k g1 - g1 / 2) / (g1 / 2)) =
           Inr (arcsin ((effective_depth h_Ik h_Ip1k g1 - g1 / 2) / (g1 / 2)))"
  using assms effective_depth_range [of g1 h_Ik h_Ip1k]
  by (simp_all add: fdiv_def np_arcsin_def divide_le_eq le_divide_eq)

lemma Elliptical_A_ik_pos:
  assumes "0 < g1"
  shows "Elliptical_A_ik h_Ik h_Ip1k g1 g2 =
    Inr (g2 / 2 * (g1 / 2)
           * (pi / 2 + arcsin ((effective_depth h_Ik h_Ip1k g1 - g1 / 2) / (g1 / 2)))
         + g2 / 2 * (g1 / 2)
           * cos (arcsin ((effective_depth h_Ik h_Ip1k g1 - g1 / 2) / (g1 / 2)))
           * sin (arcsin ((effective_depth h_Ik h_Ip1k g1 - g1 / 2) / (g1 / 2))))"
  unfolding Elliptical_A_ik_def effective_depth_def [symmetric, unfolded Let_def] Let_def clamp_ifs
  using elliptical_arg [OF assms, of h_Ik h_Ip1k]
  by (simp only: effective_depth_def Let_def sum.case)

lemma Elliptical_B_ik_pos:
  assumes "0 < g1"
  shows "Elliptical_B_ik h_Ik h_Ip1k g1 g2 =
    Inr (2 * cos (arcsin ((effective_depth h_Ik h_Ip1k g1 - g1 / 2) / (g1 / 2)))
         * sqrt ((g2 / 2) ^ 2 * cos (arcsin ((effective_depth h_Ik h_Ip1k g1 - g1 / 2) / (g1 / 2))) ^ 2
               + (g1 / 2) ^ 2 * sin (arcsin ((effective_depth h_Ik h_Ip1k g1 - g1 / 2) / (g1 / 2))) ^ 2))"
proof -
  have "Elliptical_B_ik h_Ik h_Ip1k g1 g2 =
     (case fdiv (effective_depth h_Ik h_Ip1k g1 - g1 / 2) (g1 / 2) of Inl e \<Rightarrow> Inl e | Inr q \<Rightarrow>
        case np_arcsin q of Inl e \<Rightarrow> Inl e | Inr theta \<Rightarrow>
        case np_sqrt ((g2 / 2) ^ 2 * cos theta ^ 2 + (g1 / 2) ^ 2 * sin theta ^ 2) of
          Inl e \<Rightarrow> Inl e
        | Inr s \<Rightarrow> Inr (2 * cos theta * s))"
    unfolding Elliptical_B_ik_def effective_depth_def Let_def clamp_ifs ..
  then show ?thesis
    using elliptical_arg [OF assms, of h_Ik h_Ip1k]
    by (simp add: np_sqrt_def)
qed

section \<open>The empty cross-section\<close>

text \<open>
  Claim C5, as amended. At effective depth zero the area is zero for the circular pipe of
  positive diameter, the floodplain with a nonnegative transition depth, and the closed
  and open rectangle, the triangle, the trapezoid, the parabola and the wide channel; the
  area of the force main is \<open>pi * (d / 2)\<^sup>2\<close> at every pair of depths. At diameter zero the
  circular area function divides by zero and raises. Nothing is said of the ellipse.
\<close>

theorem area_zero_at_zero_depth:
  assumes "effective_depth h_Ik h_Ip1k g1 = 0"
  shows "(0 < g1 \<longrightarrow> Circular_A_ik h_Ik h_Ip1k g1 = Inr 0) \<and>
    Rect_Closed_A_ik h_Ik h_Ip1k g1 g2 = 0 \<and>
    Rect_Open_A_ik h_Ik h_Ip1k g1 g2 = 0 \<and>
    Triangular_A_ik h_Ik h_Ip1k g1 g2 = 0 \<and>
    Trapezoidal_A_ik h_Ik h_Ip1k g1 g2 g3 = 0 \<and>
    Parabolic_A_ik h_Ik h_Ip1k g1 g2 = 0 \<and>
    Wide_A_ik h_Ik h_Ip1k g1 g2 = 0 \<and>
    (0 \<le> g2 \<longrightarrow> Floodplain_A_ik h_Ik h_Ip1k g1 g2 g3 g4 g5 g6 = 0) \<and>
    Force_Main_A_ik k_Ik k_Ip1k d pslot = pi * (d / 2) ^ 2"
proof (intro conjI impI)
  assume "0 < g1"
  then show "Circular_A_ik h_Ik h_Ip1k g1 = Inr 0"
    by (simp add: Circular_A_ik_pos assms)
next
  assume "0 \<le> g2"
  then show "Floodplain_A_ik h_Ik h_Ip1k g1 g2 g3 g4 g5 g6 = 0"
    by (auto simp add: Floodplain_A_ik_eff assms)
next
  show "Force_Main_A_ik k_Ik k_Ip1k d pslot = pi * (d / 2) ^ 2"
    by (simp add: Force_Main_A_ik_def)
qed (simp_all add: assms Rect_Closed_A_ik_eff Rect_Open_A_ik_eff Triangular_A_ik_eff
    Trapezoidal_A_ik_eff Parabolic_A_ik_eff Wide_A_ik_eff)

theorem area_zero_at_zero_depth_witness:
  "effective_depth 0 0 2 = 0 \<and>
   Circular_A_ik 0 0 2 = Inr 0 \<and> Rect_Closed_A_ik 0 0 2 3 = 0 \<and> Rect_Open_A_ik 0 0 2 3 = 0 \<and>
   Triangular_A_ik 0 0 2 3 = 0 \<and> Trapezoidal_A_ik 0 0 2 3 1 = 0 \<and> Parabolic_A_ik 0 0 2 3 = 0 \<and>
   Wide_A_ik 0 0 2 3 = 0 \<and>
   Floodplain_A_ik 0 0 2 3 1 1 1 1 = 0 \<and> Force_Main_A_ik 5 7 2 (1/1000) = pi * (2 / 2) ^ 2"
proof -
  have h: "effective_depth 0 0 2 = 0"
    by (simp add: effective_depth_def)
  show ?thesis
    using h area_zero_at_zero_depth [OF h, of 3 1 1 1 1 5 7 2 "1/1000"] by simp
qed

theorem area_zero_at_zero_depth_counterexample:
  "effective_depth 0 0 0 = 0 \<and> Circular_A_ik 0 0 0 = Inl ZeroDivisionError"
  by (simp add: effective_depth_def Circular_A_ik_def fdiv_def)

section \<open>The floodplain below its transition depth\<close>

lemma effective_depth_same:
  "0 \<le> y \<Longrightarrow> y \<le> y_max \<Longrightarrow> effective_depth y y y_max = y"
  by (simp add: effective_depth_def)

lemma floodplain_below_transition:
  assumes "0 < y_mid" "y_mid < y_max"
  shows "eventually (\<lambda>y. effective_depth y y y_max = y \<and> y < y_mid) (at_left y_mid)"
proof (rule eventually_at_leftI [of 0])
  show "0 < y_mid" by (rule assms)
next
  fix y assume "y \<in> {0<..<y_mid}"
  then show "effective_depth y y y_max = y \<and> y < y_mid"
    using assms by (simp add: effective_depth_same)
qed

lemma Floodplain_A_ik_left_limit:
  assumes "0 < y_mid" "y_mid < y_max"
  shows "((\<lambda>y. Floodplain_A_ik y y y_max y_mid b_lower b_upper m_lower m_upper)
           \<longlongrightarrow> y_mid * (b_lower + m_lower * y_mid)) (at_left y_mid)"
proof (rule Lim_transform_eventually)
  show "((\<lambda>y. y * (b_lower + m_lower * y)) \<longlongrightarrow> y_mid * (b_lower + m_lower * y_mid))
          (at_left y_mid)"
    by (intro tendsto_intros)
  show "eventually (\<lambda>y. y * (b_lower + m_lower * y) =
          Floodplain_A_ik y y y_max y_mid b_lower b_upper m_lower m_upper) (at_left y_mid)"
    using floodplain_below_transition [OF assms]
    by (rule eventually_mono) (simp add: Floodplain_A_ik_eff)
qed

lemma Floodplain_B_ik_left_limit:
  assumes "0 < y_mid" "y_mid < y_max"
  shows "((\<lambda>y. Floodplain_B_ik y y y_max y_mid b_lower b_upper m_lower m_upper)
           \<longlongrightarrow> b_lower + 2 * m_lower * y_mid) (at_left y_mid)"
proof (rule Lim_transform_eventually)
  show "((\<lambda>y. b_lower + 2 * m_lower * y) \<longlongrightarrow> b_lower + 2 * m_lower * y_mid) (at_left y_mid)"
    by (intro tendsto_intros)
  show "eventually (\<lambda>y. b_lower + 2 * m_lower * y =
          Floodplain_B_ik y y y_max y_mid b_lower b_upper m_lower m_upper) (at_left y_mid)"
    using floodplain_below_transition [OF assms]
    by (rule eventually_mono) (simp add: Floodplain_B_ik_eff)
qed

lemma Floodplain_Pe_ik_left_limit:
  assumes "0 < y_mid" "y_mid < y_max"
  shows "((\<lambda>y. projr (Floodplain_Pe_ik y y y_max y_mid b_lower b_upper m_lower m_upper))
           \<longlongrightarrow> b_lower + 2 * y_mid * sqrt (1 + m_lower ^ 2)) (at_left y_mid)"
proof (rule Lim_transform_eventually)
  show "((\<lambda>y. b_lower + 2 * y * sqrt (1 + m_lower ^ 2))
          \<longlongrightarrow> b_lower + 2 * y_mid * sqrt (1 + m_lower ^ 2)) (at_left y_mid)"
    by (intro tendsto_intros)
  show "eventually (\<lambda>y. b_lower + 2 * y * sqrt (1 + m_lower ^ 2) =
          projr (Floodplain_Pe_ik y y y_max y_mid b_lower b_upper m_lower m_upper)) (at_left y_mid)"
    using floodplain_below_transition [OF assms]
    by (rule eventually_mono) (simp add: Floodplain_Pe_ik_eff)
qed

section \<open>The floodplain at its transition depth\<close>

text \<open>
  Claim C1, as amended. Let the transition depth lie strictly between zero and the height.
  As the depth approaches the transition depth from below, the floodplain's area tends to
  the area at the transition depth: the area is continuous there. The perimeter tends to
  \<open>b_lower + 2 * y_mid * sqrt (1 + m_lower\<^sup>2)\<close> and the top width to
  \<open>b_lower + 2 * m_lower * y_mid\<close>; at the transition depth itself the perimeter is that
  limit plus \<open>b_upper - (b_lower + 2 * m_lower * y_mid)\<close> and the top width is \<open>b_upper\<close>.
  Each of the two jumps by the width of the floodplain's shelf, and is continuous exactly
  when that width is zero.
\<close>

theorem floodplain_at_transition:
  assumes "0 < y_mid" "y_mid < y_max"
  shows "((\<lambda>y. Floodplain_A_ik y y y_max y_mid b_lower b_upper m_lower m_upper)
           \<longlongrightarrow> Floodplain_A_ik y_mid y_mid y_max y_mid b_lower b_upper m_lower m_upper)
           (at_left y_mid) \<and>
    ((\<lambda>y. projr (Floodplain_Pe_ik y y y_max y_mid b_lower b_upper m_lower m_upper))
           \<longlongrightarrow> b_lower + 2 * y_mid * sqrt (1 + m_lower ^ 2)) (at_left y_mid) \<and>
    Floodplain_Pe_ik y_mid y_mid y_max y_mid b_lower b_upper m_lower m_upper =
      Inr (b_lower + 2 * y_mid * sqrt (1 + m_lower ^ 2)
           + (b_upper - (b_lower + 2 * m_lower * y_mid))) \<and>
    ((\<lambda>y. Floodplain_B_ik y y y_max y_mid b_lower b_upper m_lower m_upper)
           \<longlongrightarrow> b_lower + 2 * m_lower * y_mid) (at_left y_mid) \<and>
    Floodplain_B_ik y_mid y_mid y_max y_mid b_lower b_upper m_lower m_upper = b_upper"
proof -
  have e: "effective_depth y_mid y_mid y_max = y_mid"
    using assms by (simp add: effective_depth_same)
  have A: "Floodplain_A_ik y_mid y_mid y_max y_mid b_lower b_upper m_lower m_upper =
          y_mid * (b_lower + m_lower * y_mid)"
    by (simp add: Floodplain_A_ik_eff e)
  have Pe: "Floodplain_Pe_ik y_mid y_mid y_max y_mid b_lower b_upper m_lower m_upper =
      Inr (b_lower + 2 * y_mid * sqrt (1 + m_lower ^ 2)
           + (b_upper - (b_lower + 2 * m_lower * y_mid)))"
    by (simp add: Floodplain_Pe_ik_eff e)
  have B: "Floodplain_B_ik y_mid y_mid y_max y_mid b_lower b_upper m_lower m_upper = b_upper"
    by (simp add: Floodplain_B_ik_eff e)
  show ?thesis
    unfolding A
    using Floodplain_A_ik_left_limit [OF assms] Floodplain_Pe_ik_left_limit [OF assms]
      Floodplain_B_ik_left_limit [OF assms] Pe B
    by (intro conjI)
qed

theorem floodplain_at_transition_witness:
  "(0::real) < 1 \<and> (1::real) < 2 \<and>
   ((\<lambda>y. Floodplain_A_ik y y 2 1 2 10 1 1) \<longlongrightarrow> Floodplain_A_ik 1 1 2 1 2 10 1 1) (at_left 1) \<and>
   ((\<lambda>y. projr (Floodplain_Pe_ik y y 2 1 2 10 1 1)) \<longlongrightarrow> 2 + 2 * 1 * sqrt (1 + 1 ^ 2)) (at_left 1) \<and>
   Floodplain_Pe_ik 1 1 2 1 2 10 1 1 = Inr (2 + 2 * 1 * sqrt (1 + 1 ^ 2) + (10 - (2 + 2 * 1 * 1))) \<and>
   ((\<lambda>y. Floodplain_B_ik y y 2 1 2 10 1 1) \<longlongrightarrow> 2 + 2 * 1 * 1) (at_left 1) \<and>
   Floodplain_B_ik 1 1 2 1 2 10 1 1 = 10"
  using floodplain_at_transition [of 1 2 2 10 1 1] by simp

theorem floodplain_continuity_counterexample:
  "(0::real) < 1 \<and> (1::real) < 2 \<and> Floodplain_B_ik 1 1 2 1 2 10 1 1 \<noteq> 2 + 2 * 1 * 1 \<and>
   Floodplain_Pe_ik 1 1 2 1 2 10 1 1 \<noteq> Inr (2 + 2 * 1 * sqrt (1 + 1 ^ 2))"
  by (simp add: Floodplain_B_ik_def Floodplain_Pe_ik_def)

section \<open>Dependence on the effective depth\<close>

text \<open>
  Two pairs of junction depths with the same effective depth give the same result in
  every area, perimeter and top width function but one. (The functions that divide by the
  diameter or the height are taken at a positive one.)
\<close>

lemma parabolic_depth_eff:
  assumes "0 < g1"
  shows "(if (if m \<le> 0 then eps else m) > g1 then g1 else (if m \<le> 0 then eps else m)) =
    (if min (max m 0) g1 \<le> 0 then min eps g1 else min (max m 0) g1)"
  using assms by (auto simp add: min_def max_def)

lemma Parabolic_Pe_ik_through_effective_depth:
  assumes "0 < g1" "effective_depth h1 h2 g1 = effective_depth k1 k2 g1"
  shows "Parabolic_Pe_ik h1 h2 g1 g2 = Parabolic_Pe_ik k1 k2 g1 g2"
proof -
  have e: "min (max ((h1 + h2) / 2) 0) g1 = min (max ((k1 + k2) / 2) 0) g1"
    using assms(2) by (simp add: effective_depth_def)
  show ?thesis
    unfolding Parabolic_Pe_ik_def Let_def parabolic_depth_eff [OF assms(1)] e ..
qed

lemma others_through_effective_depth:
  assumes "effective_depth h1 h2 g1 = effective_depth k1 k2 g1"
  shows "0 < g1 \<Longrightarrow> Circular_A_ik h1 h2 g1 = Circular_A_ik k1 k2 g1"
    and "0 < g1 \<Longrightarrow> Circular_Pe_ik h1 h2 g1 = Circular_Pe_ik k1 k2 g1"
    and "0 < g1 \<Longrightarrow> Circular_B_ik h1 h2 g1 g2 = Circular_B_ik k1 k2 g1 g2"
    and "Rect_Closed_A_ik h1 h2 g1 g2 = Rect_Closed_A_ik k1 k2 g1 g2"
    and "Rect_Closed_Pe_ik h1 h2 g1 g2 = Rect_Closed_Pe_ik k1 k2 g1 g2"
    and "Rect_Closed_B_ik h1 h2 g1 g2 g3 = Rect_Closed_B_ik k1 k2 g1 g2 g3"
    and "Rect_Open_A_ik h1 h2 g1 g2 = Rect_Open_A_ik k1 k2 g1 g2"
    and "Rect_Open_Pe_ik h1 h2 g1 g2 = Rect_Open_Pe_ik k1 k2 g1 g2"
    and "Rect_Open_B_ik h1 h2 g1 g2 = Rect_Open_B_ik k1 k2 g1 g2"
    and "Triangular_A_ik h1 h2 g1 g2 = Triangular_A_ik k1 k2 g1 g2"
    and "Triangular_Pe_ik h1 h2 g1 g2 = Triangular_Pe_ik k1 k2 g1 g2"
    and "Triangular_B_ik h1 h2 g1 g2 = Triangular_B_ik k1 k2 g1 g2"
    and "Trapezoidal_A_ik h1 h2 g1 g2 g3 = Trapezoidal_A_ik k1 k2 g1 g2 g3"
    and "Trapezoidal_Pe_ik h1 h2 g1 g2 g3 = Trapezoidal_Pe_ik k1 k2 g1 g2 g3"
    and "Trapezoidal_B_ik h1 h2 g1 g2 g3 = Trapezoidal_B_ik k1 k2 g1 g2 g3"
    and "Parabolic_A_ik h1 h2 g1 g2 = Parabolic_A_ik k1 k2 g1 g2"
    and "0 < g1 \<Longrightarrow> Elliptical_A_ik h1 h2 g1 g2 = Elliptical_A_ik k1 k2 g1 g2"
    and "0 < g1 \<Longrightarrow> Elliptical_B_ik h1 h2 g1 g2 = Elliptical_B_ik k1 k2 g1 g2"
    and "Wide_A_ik h1 h2 g1 g2 = Wide_A_ik k1 k2 g1 g2"
    and "Wide_Pe_ik h1 h2 g1 g2 = Wide_Pe_ik k1 k2 g1 g2"
    and "Wide_B_ik h1 h2 g1 g2 = Wide_B_ik k1 k2 g1 g2"
    and "Force_Main_A_ik h1 h2 g1 g2 = Force_Main_A_ik k1 k2 g1 g2"
    and "Force_Main_Pe_ik h1 h2 g1 g2 = Force_Main_Pe_ik k1 k2 g1 g2"
    and "Force_Main_B_ik h1 h2 g1 g2 = Force_Main_B_ik k1 k2 g1 g2"
    and "Floodplain_A_ik h1 h2 g1 g2 g3 g4 g5 g6 = Floodplain_A_ik k1 k2 g1 g2 g3 g4 g5 g6"
    and "Floodplain_Pe_ik h1 h2 g1 g2 g3 g4 g5 g6 = Floodplain_Pe_ik k1 k2 g1 g2 g3 g4 g5 g6"
    and "Floodplain_B_ik h1 h2 g1 g2 g3 g4 g5 g6 = Floodplain_B_ik k1 k2 g1 g2 g3 g4 g5 g6"
  using assms
  by (simp_all only: Circular_A_ik_pos Circular_Pe_ik_pos Circular_B_ik_pos
      Rect_Closed_A_ik_eff Rect_Closed_Pe_ik_eff Rect_Closed_B_ik_eff
      Rect_Open_A_ik_eff Rect_Open_Pe_ik_eff Rect_Open_B_ik_def
      Triangular_A_ik_eff Triangular_Pe_ik_eff Triangular_B_ik_eff
      Trapezoidal_A_ik_eff Trapezoidal_Pe_ik_eff Trapezoidal_B_ik_eff
      Parabolic_A_ik_eff
      Elliptical_A_ik_pos Elliptical_B_ik_pos
      Wide_A_ik_eff Wide_Pe_ik_def Wide_B_ik_def
      Force_Main_A_ik_def Force_Main_Pe_ik_def Force_Main_B_ik_def
      Floodplain_A_ik_eff Floodplain_Pe_ik_eff Floodplain_B_ik_eff)

text \<open>
  Claim C2 says that this holds of every evaluator, the parabolic top width at mean depths
  above the height included. There the code departs from it: \<open>Parabolic_B_ik\<close> clamps the
  mean depth at zero but not at the height. For a parabola of height 1 and width 1 the
  junction depths \<open>(4, 4)\<close> and \<open>(1, 1)\<close> have the same effective depth 1, and the same
  area and perimeter, but the top widths 2 and 1.
\<close>

theorem parabolic_top_width_above_full:
  "effective_depth 4 4 1 = 1 \<and> effective_depth 1 1 1 = 1 \<and>
   Parabolic_B_ik 4 4 1 1 = Inr 2 \<and> Parabolic_B_ik 1 1 1 1 = Inr 1 \<and>
   Parabolic_A_ik 4 4 1 1 = Parabolic_A_ik 1 1 1 1 \<and>
   Parabolic_Pe_ik 4 4 1 1 = Parabolic_Pe_ik 1 1 1 1"
  by (simp add: effective_depth_def Parabolic_B_ik_def Parabolic_A_ik_def Parabolic_Pe_ik_def
      fdiv_def np_sqrt_def)

end
